theory Spec2Isabelle
  imports Main
begin

section \<open>Values and the object graph\<close>

text \<open>
  The profiler receives arbitrary JavaScript values.  A primitive is a value of its own;
  everything with reference identity (objects, arrays, functions, ...) lives in a store and
  is named by its address, so that aliasing and cycles of the measured graph are part of
  the model.  Numbers are modelled by integers: no sizing rule reads a number, only
  \<open>String(k)\<close> of a Map key prints one.  Strings are lists of code units.
\<close>

type_synonym addr = nat

datatype val =
    Null
  | Undefined
  | Str string
  | Num int
  | Bool bool
  | BigInt int
  | Sym "string option"
  | Ref addr

text \<open>The eleven constructors listed by \<open>TypedArraySizeStrategy\<close>.\<close>

datatype ctor =
    Int8Array | Uint8Array | Uint8ClampedArray | Int16Array | Uint16Array | Int32Array
  | Uint32Array | Float32Array | Float64Array | BigInt64Array | BigUint64Array

text \<open>
  What the runtime's classification facilities (\<open>Array.isArray\<close>, \<open>instanceof\<close>,
  \<open>Buffer.isBuffer\<close>, \<open>typeof\<close>) tell about a stored object, with the data that only this
  kind of object has: the slots of an array (\<open>None\<close> is a hole), the entries of a Map in
  iteration order, the members of a Set, the \<open>prototype\<close> property of a function, source
  and flags of a regular expression, the elements of a typed array or Buffer, the byte
  length of an ArrayBuffer or DataView.  \<open>Plain\<close> is every other object.
\<close>

datatype kind =
    Plain
  | Array "val option list"
  | MapK "(val \<times> val) list"
  | SetK "val list"
  | Func val
  | RegExp string string
  | Date
  | TypedArray ctor "int list"
  | Buffer "int list"
  | ArrayBuffer nat
  | DataView nat
  | WeakRef

text \<open>
  A stored object: its kind, its own enumerable string-keyed properties other than array
  indices (in enumeration order), the string that its \<open>toString\<close> function returns when it
  is called, and the class tag that
  \<open>Object.prototype.toString.call(value).slice(8, -1).toLowerCase()\<close> yields.
\<close>

record obj =
  kind :: kind
  props :: "(string \<times> val) list"
  text_of :: string
  tag :: string

type_synonym heap = "addr \<Rightarrow> obj"

text \<open>
  A call either returns or throws.  \<open>TypeError\<close> is what the runtime throws when a value
  that is not a function is called or cannot be turned into a string; \<open>RangeError\<close> is what
  it throws when the call stack is used up.
\<close>

datatype error = TypeError | RangeError

type_synonym 'a result = "error + 'a"

section \<open>The size unit table\<close>

text \<open>The members of \<open>eMemorySize\<close>.\<close>

definition BOOLEAN :: nat where "BOOLEAN = 4"
definition NUMBER :: nat where "NUMBER = 8"
definition BIGINT :: nat where "BIGINT = 8"
definition STRING_CHAR :: nat where "STRING_CHAR = 2"
definition DATE :: nat where "DATE = 8"
definition REFERENCE :: nat where "REFERENCE = 8"
definition UNDEFINED :: nat where "UNDEFINED = 1"
definition NULL :: nat where "NULL = 8"

text \<open>
  The strategies also read \<open>eMemorySize.DEFAULT_OBJECT\<close>, \<open>DEFAULT_ARRAY\<close>, \<open>DEFAULT_MAP\<close>,
  \<open>DEFAULT_SET\<close>, \<open>DEFAULT_REGEXP\<close>, \<open>DEFAULT_WEAKREF\<close> and \<open>DEFAULT_FUNCTION\<close>.  The enum
  declaration at hand does not list these members, so every function that reads one takes
  the table of base overheads as a parameter.
\<close>

record overheads =
  DEFAULT_OBJECT :: nat
  DEFAULT_ARRAY :: nat
  DEFAULT_MAP :: nat
  DEFAULT_SET :: nat
  DEFAULT_REGEXP :: nat
  DEFAULT_WEAKREF :: nat
  DEFAULT_FUNCTION :: nat


text \<open>A table to run the model on concrete inputs.\<close>

definition sample_overheads :: overheads where
  "sample_overheads =
     \<lparr>DEFAULT_OBJECT = 16, DEFAULT_ARRAY = 24, DEFAULT_MAP = 32, DEFAULT_SET = 40,
      DEFAULT_REGEXP = 48, DEFAULT_WEAKREF = 56, DEFAULT_FUNCTION = 64\<rparr>"

section \<open>Strings of numbers and values\<close>

definition digit :: "nat \<Rightarrow> char" where
  "digit d = ''0123456789'' ! d"

fun decimal :: "nat \<Rightarrow> string" where
  "decimal n = (if n < 10 then [digit n] else decimal (n div 10) @ [digit (n mod 10)])"

declare decimal.simps [simp del]

definition decimal_int :: "int \<Rightarrow> string" where
  "decimal_int i = (if i < 0 then ''-'' @ decimal (nat (- i)) else decimal (nat i))"

section \<open>formatSize\<close>

text \<open>
  \<open>toFixed(2)\<close> of \<open>bytes / 1024 ** k\<close> for a byte count that is a natural number: the
  quotient by a power of two is exact, and \<open>toFixed\<close> picks the integer \<open>n\<close> with
  \<open>n / 100\<close> closest to it, the larger one on a tie.
\<close>

definition toFixed2 :: "nat \<Rightarrow> nat \<Rightarrow> string" where
  "toFixed2 bytes d =
     (let n = (2 * 100 * bytes + d) div (2 * d)
      in decimal (n div 100) @ ''.'' @ [digit (n mod 100 div 10), digit (n mod 10)])"

text \<open>The unit is a member of \<open>eMemoryUnit\<close>, at run time a string.\<close>

definition formatSize :: "nat \<Rightarrow> string \<Rightarrow> string" where
  "formatSize bytes unit =
     (if unit = ''B'' then decimal bytes @ '' B''
      else if unit = ''KB'' then toFixed2 bytes 1024 @ '' KB''
      else if unit = ''MB'' then toFixed2 bytes (1024 ^ 2) @ '' MB''
      else if unit = ''GB'' then toFixed2 bytes (1024 ^ 3) @ '' GB''
      else decimal bytes @ '' B'')"

section \<open>What the runtime tells about a value\<close>

definition typeof :: "heap \<Rightarrow> val \<Rightarrow> string" where
  "typeof h v =
     (case v of
        Null \<Rightarrow> ''object''
      | Undefined \<Rightarrow> ''undefined''
      | Str s \<Rightarrow> ''string''
      | Num i \<Rightarrow> ''number''
      | Bool b \<Rightarrow> ''boolean''
      | BigInt i \<Rightarrow> ''bigint''
      | Sym d \<Rightarrow> ''symbol''
      | Ref a \<Rightarrow> (case kind (h a) of Func p \<Rightarrow> ''function'' | _ \<Rightarrow> ''object''))"

text \<open>Truthiness, as \<open>&&\<close> and \<open>?:\<close> test it.\<close>

definition truthy :: "val \<Rightarrow> bool" where
  "truthy v =
     (case v of
        Null \<Rightarrow> False
      | Undefined \<Rightarrow> False
      | Str s \<Rightarrow> s \<noteq> []
      | Num i \<Rightarrow> i \<noteq> 0
      | Bool b \<Rightarrow> b
      | BigInt i \<Rightarrow> i \<noteq> 0
      | Sym d \<Rightarrow> True
      | Ref a \<Rightarrow> True)"

text \<open>\<open>/^https?:/.test(s)\<close>\<close>

definition url_like :: "string \<Rightarrow> bool" where
  "url_like s \<longleftrightarrow> take 5 s = ''http:'' \<or> take 6 s = ''https:''"

text \<open>
  What \<open>value.toString\<close> is for a value other than null and undefined.  A primitive and an
  object without an own \<open>toString\<close> property inherit the function of their prototype; an own
  property hides it, and what it holds may be null or undefined, a function, or anything
  else, as in \<open>{toString: 5}\<close>.
\<close>

datatype callee = Missing | NotCallable | Callable

definition toString_callee :: "heap \<Rightarrow> val \<Rightarrow> callee" where
  "toString_callee h v =
     (case v of
        Ref a \<Rightarrow>
          (case map_of (props (h a)) ''toString'' of
             None \<Rightarrow> Callable
           | Some w \<Rightarrow>
               if w = Null \<or> w = Undefined then Missing
               else if typeof h w = ''function'' then Callable
               else NotCallable)
      | _ \<Rightarrow> Callable)"

text \<open>
  \<open>String(v)\<close>.  For an object it calls \<open>toString\<close>; without a callable one the
  conversion throws.
\<close>

fun String_of :: "heap \<Rightarrow> val \<Rightarrow> string result" where
  "String_of h Null = Inr ''null''"
| "String_of h Undefined = Inr ''undefined''"
| "String_of h (Str s) = Inr s"
| "String_of h (Num i) = Inr (decimal_int i)"
| "String_of h (Bool b) = Inr (if b then ''true'' else ''false'')"
| "String_of h (BigInt i) = Inr (decimal_int i)"
| "String_of h (Sym d) = Inr (''Symbol('' @ (case d of None \<Rightarrow> [] | Some s \<Rightarrow> s) @ '')'')"
| "String_of h (Ref a) =
     (if toString_callee h (Ref a) = Callable then Inr (text_of (h a)) else Inl TypeError)"

text \<open>The call \<open>value.toString()\<close>: null and undefined have no properties.\<close>

definition toString :: "heap \<Rightarrow> val \<Rightarrow> string result" where
  "toString h v = (if v = Null \<or> v = Undefined then Inl TypeError else String_of h v)"

text \<open>What \<open>for (const item of value)\<close> yields for an array: a hole reads as undefined.\<close>

definition elements :: "val option list \<Rightarrow> val list" where
  "elements slots = map (\<lambda>x. case x of None \<Rightarrow> Undefined | Some v \<Rightarrow> v) slots"

text \<open>
  The index keys of an array-like object with their values, as \<open>for (const key in value)\<close>
  enumerates them: ascending, holes skipped.  \<open>forEach\<close> and \<open>reduce\<close> visit the same slots.
\<close>

fun index_props :: "nat \<Rightarrow> val option list \<Rightarrow> (string \<times> val) list" where
  "index_props i [] = []"
| "index_props i (None # slots) = index_props (Suc i) slots"
| "index_props i (Some v # slots) = (decimal i, v) # index_props (Suc i) slots"

definition elem_val :: "ctor \<Rightarrow> int \<Rightarrow> val" where
  "elem_val c i = (if c = BigInt64Array \<or> c = BigUint64Array then BigInt i else Num i)"

text \<open>
  The pairs \<open>(key, value[key])\<close> that the loop
  \<open>for (const key in value) if (Object.prototype.hasOwnProperty.call(value, key))\<close>
  runs through: index keys first, then the other own enumerable properties.
\<close>

definition own_props :: "obj \<Rightarrow> (string \<times> val) list" where
  "own_props ob =
     (case kind ob of
        Array slots \<Rightarrow> index_props 0 slots
      | TypedArray c es \<Rightarrow> index_props 0 (map (\<lambda>i. Some (elem_val c i)) es)
      | Buffer es \<Rightarrow> index_props 0 (map (\<lambda>i. Some (Num i)) es)
      | _ \<Rightarrow> []) @ props ob"

definition bytes_per_element :: "ctor \<Rightarrow> nat" where
  "bytes_per_element c =
     (case c of
        Int8Array \<Rightarrow> 1 | Uint8Array \<Rightarrow> 1 | Uint8ClampedArray \<Rightarrow> 1
      | Int16Array \<Rightarrow> 2 | Uint16Array \<Rightarrow> 2
      | Int32Array \<Rightarrow> 4 | Uint32Array \<Rightarrow> 4 | Float32Array \<Rightarrow> 4
      | Float64Array \<Rightarrow> 8 | BigInt64Array \<Rightarrow> 8 | BigUint64Array \<Rightarrow> 8)"

definition kind_of :: "heap \<Rightarrow> val \<Rightarrow> kind option" where
  "kind_of h v = (case v of Ref a \<Rightarrow> Some (kind (h a)) | _ \<Rightarrow> None)"

section \<open>Reports, strategies and the profiler\<close>

text \<open>
  \<open>IMemoryReport\<close>.  The \<open>children\<close> record is kept as the list of its keys with their
  reports in insertion order; a report built without \<open>children\<close> has \<open>None\<close>.
\<close>

datatype report =
  Report (rtype: string) (rsize: nat) (children: "(string \<times> report) list option")

text \<open>
  \<open>ISizeStrategy\<close>: the nine built-in strategies, and a strategy supplied by the caller,
  which is a \<open>supports\<close> predicate, a \<open>sizeOf\<close> cost that does not call back into the
  profiler (as the README's \<open>MockStrategy\<close>), and the optional \<open>detailedSizeOf\<close>.
\<close>

datatype strategy =
    ArrayStrategy
  | RegExpStrategy
  | WeakRefStrategy
  | URLSizeStrategy
  | TypedArraySizeStrategy
  | ArrayBufferStrategy
  | DataViewStrategy
  | FunctionSizeStrategy
  | DefaultSizeStrategy
  | Custom "heap \<Rightarrow> val \<Rightarrow> bool" "heap \<Rightarrow> val \<Rightarrow> nat" "(heap \<Rightarrow> val \<Rightarrow> report) option"

text \<open>The \<open>detailedSizeOf?\<close> member: no built-in strategy defines one.\<close>

fun detailedSizeOf :: "strategy \<Rightarrow> (heap \<Rightarrow> val \<Rightarrow> report) option" where
  "detailedSizeOf (Custom accepts cost hook) = hook"
| "detailedSizeOf s = None"

text \<open>The fields of a \<open>Profiler\<close>: \<open>this.visited\<close> and \<open>this.strategies\<close>.\<close>

record profiler =
  visited :: "addr set"
  strategies :: "strategy list"

definition default_strategies :: "strategy list" where
  "default_strategies =
     [ArrayStrategy, RegExpStrategy, WeakRefStrategy, URLSizeStrategy, TypedArraySizeStrategy,
      ArrayBufferStrategy, DataViewStrategy, FunctionSizeStrategy, DefaultSizeStrategy]"

text \<open>\<open>new Profiler(options)\<close>: \<open>options?.strategies ?? [the default list]\<close>.\<close>

definition Profiler :: "strategy list option \<Rightarrow> profiler" where
  "Profiler opt =
     \<lparr>visited = {},
      strategies = (case opt of None \<Rightarrow> default_strategies | Some ss \<Rightarrow> ss)\<rparr>"

definition addStrategy :: "profiler \<Rightarrow> strategy \<Rightarrow> profiler" where
  "addStrategy p s = p\<lparr>strategies := s # strategies p\<rparr>"

section \<open>The visitation tracker\<close>

definition has :: "addr set \<Rightarrow> val \<Rightarrow> bool" where
  "has vis v = (case v of Ref a \<Rightarrow> a \<in> vis | _ \<Rightarrow> False)"

definition add :: "addr set \<Rightarrow> val \<Rightarrow> addr set" where
  "add vis v = (case v of Ref a \<Rightarrow> insert a vis | _ \<Rightarrow> vis)"

definition isVisited :: "heap \<Rightarrow> profiler \<Rightarrow> val \<Rightarrow> bool" where
  "isVisited h p v \<longleftrightarrow> typeof h v = ''object'' \<and> v \<noteq> Null \<and> has (visited p) v"

definition markVisited :: "heap \<Rightarrow> profiler \<Rightarrow> val \<Rightarrow> profiler" where
  "markVisited h p v =
     (if typeof h v = ''object'' \<and> v \<noteq> Null then p\<lparr>visited := add (visited p) v\<rparr> else p)"

section \<open>The supports predicates\<close>

text \<open>
  \<open>value?.toString?.() && typeof value.toString === "function" &&
  /^https?:/.test(value.toString())\<close>: the optional call gives undefined for null, for
  undefined and for a \<open>toString\<close> that is null or undefined, and it calls whatever else
  \<open>toString\<close> holds, before the \<open>typeof\<close> test is reached.
\<close>

definition URLSizeStrategy_supports :: "heap \<Rightarrow> val \<Rightarrow> bool result" where
  "URLSizeStrategy_supports h v =
     (if v = Null \<or> v = Undefined \<or> toString_callee h v = Missing then Inr False
      else
        (case toString h v of
           Inl e \<Rightarrow> Inl e
         | Inr s \<Rightarrow> Inr (s \<noteq> [] \<and> url_like s)))"

fun supports :: "heap \<Rightarrow> strategy \<Rightarrow> val \<Rightarrow> bool result" where
  "supports h DefaultSizeStrategy v = Inr True"
| "supports h URLSizeStrategy v = URLSizeStrategy_supports h v"
| "supports h TypedArraySizeStrategy v =
     Inr (case kind_of h v of
            Some (TypedArray c es) \<Rightarrow> True | Some (Buffer es) \<Rightarrow> True | _ \<Rightarrow> False)"
| "supports h ArrayBufferStrategy v =
     Inr (case kind_of h v of Some (ArrayBuffer n) \<Rightarrow> True | _ \<Rightarrow> False)"
| "supports h DataViewStrategy v =
     Inr (case kind_of h v of Some (DataView n) \<Rightarrow> True | _ \<Rightarrow> False)"
| "supports h FunctionSizeStrategy v = Inr (typeof h v = ''function'')"
| "supports h WeakRefStrategy v =
     Inr (case kind_of h v of Some WeakRef \<Rightarrow> True | _ \<Rightarrow> False)"
| "supports h RegExpStrategy v =
     Inr (case kind_of h v of Some (RegExp src fl) \<Rightarrow> True | _ \<Rightarrow> False)"
| "supports h ArrayStrategy v =
     Inr (case kind_of h v of Some (Array slots) \<Rightarrow> True | _ \<Rightarrow> False)"
| "supports h (Custom accepts cost hook) v = Inr (accepts h v)"

text \<open>
  \<open>this.strategies.find((s) => s.supports(value))\<close>: the first strategy whose predicate
  holds; a predicate that throws ends the search with its error.
\<close>

fun find_strategy :: "heap \<Rightarrow> val \<Rightarrow> strategy list \<Rightarrow> strategy option result" where
  "find_strategy h v [] = Inr None"
| "find_strategy h v (s # ss) =
     (case supports h s v of
        Inl e \<Rightarrow> Inl e
      | Inr b \<Rightarrow> if b then Inr (Some s) else find_strategy h v ss)"

section \<open>The loops of the strategies\<close>

text \<open>
  A call of \<open>profiler.computeSize\<close> takes the profiler as it is and returns the size with
  the profiler as the call leaves it, or throws.
\<close>

type_synonym sizer = "val \<Rightarrow> profiler \<Rightarrow> (nat \<times> profiler) result"

text \<open>\<open>for (const item of items) size += profiler.computeSize(item)\<close>\<close>

fun for_of :: "sizer \<Rightarrow> val list \<Rightarrow> nat \<Rightarrow> profiler \<Rightarrow> (nat \<times> profiler) result" where
  "for_of rec [] sz p = Inr (sz, p)"
| "for_of rec (item # items) sz p =
     (case rec item p of
        Inl e \<Rightarrow> Inl e
      | Inr (n, p') \<Rightarrow> for_of rec items (sz + n) p')"

text \<open>
  \<open>size += key.length * eMemorySize.STRING_CHAR; size += profiler.computeSize(value[key])\<close>
  for each pair of the property walk.
\<close>

fun for_in :: "sizer \<Rightarrow> (string \<times> val) list \<Rightarrow> nat \<Rightarrow> profiler \<Rightarrow> (nat \<times> profiler) result" where
  "for_in rec [] sz p = Inr (sz, p)"
| "for_in rec ((key, v) # kvs) sz p =
     (case rec v p of
        Inl e \<Rightarrow> Inl e
      | Inr (n, p') \<Rightarrow> for_in rec kvs (sz + length key * STRING_CHAR + n) p')"

text \<open>\<open>size += profiler.computeSize(key) + profiler.computeSize(val)\<close> for each Map entry.\<close>

fun for_entries ::
  "sizer \<Rightarrow> (val \<times> val) list \<Rightarrow> nat \<Rightarrow> profiler \<Rightarrow> (nat \<times> profiler) result" where
  "for_entries rec [] sz p = Inr (sz, p)"
| "for_entries rec ((k, v) # es) sz p =
     (case rec k p of
        Inl e \<Rightarrow> Inl e
      | Inr (n, p') \<Rightarrow>
          (case rec v p' of
             Inl e \<Rightarrow> Inl e
           | Inr (m, p'') \<Rightarrow> for_entries rec es (sz + (n + m)) p''))"

section \<open>The sizeOf rules\<close>

definition ArrayStrategy_sizeOf ::
  "overheads \<Rightarrow> sizer \<Rightarrow> val option list \<Rightarrow> obj \<Rightarrow> profiler \<Rightarrow> (nat \<times> profiler) result" where
  "ArrayStrategy_sizeOf c rec slots ob p =
     (case for_of rec (elements slots) (DEFAULT_ARRAY c) p of
        Inl e \<Rightarrow> Inl e
      | Inr (sz, p') \<Rightarrow>
          for_in rec (filter (\<lambda>(key, v). key \<noteq> ''length'') (own_props ob)) sz p')"

definition RegExpStrategy_sizeOf ::
  "overheads \<Rightarrow> sizer \<Rightarrow> string \<Rightarrow> string \<Rightarrow> obj \<Rightarrow> profiler \<Rightarrow> (nat \<times> profiler) result" where
  "RegExpStrategy_sizeOf c rec src fl ob p =
     (case for_in rec
             (filter (\<lambda>(key, v). key \<noteq> ''source'' \<and> key \<noteq> ''flags'' \<and> key \<noteq> ''lastIndex'')
                (own_props ob))
             (DEFAULT_REGEXP c + length src * STRING_CHAR + length fl * STRING_CHAR) p of
        Inl e \<Rightarrow> Inl e
      | Inr (sz, p') \<Rightarrow> Inr (sz + NUMBER, p'))"

definition FunctionSizeStrategy_sizeOf ::
  "overheads \<Rightarrow> heap \<Rightarrow> sizer \<Rightarrow> val \<Rightarrow> val \<Rightarrow> obj \<Rightarrow> profiler \<Rightarrow> (nat \<times> profiler) result" where
  "FunctionSizeStrategy_sizeOf c h rec fn proto ob p =
     (case toString h fn of
        Inl e \<Rightarrow> Inl e
      | Inr s \<Rightarrow>
          (case for_in rec (own_props ob) (DEFAULT_FUNCTION c + length s * STRING_CHAR) p of
             Inl e \<Rightarrow> Inl e
           | Inr (sz, p') \<Rightarrow>
               if truthy proto \<and> typeof h proto = ''object'' then
                 (case rec proto p' of Inl e \<Rightarrow> Inl e | Inr (n, p'') \<Rightarrow> Inr (sz + n, p''))
               else Inr (sz, p')))"

text \<open>The part of \<open>DefaultSizeStrategy.sizeOf\<close> after the visitation check.\<close>

definition DefaultSizeStrategy_object ::
  "overheads \<Rightarrow> heap \<Rightarrow> sizer \<Rightarrow> val \<Rightarrow> obj \<Rightarrow> profiler \<Rightarrow> (nat \<times> profiler) result" where
  "DefaultSizeStrategy_object c h rec v ob p =
     (case kind ob of
        Array slots \<Rightarrow> for_of rec (map snd (index_props 0 slots)) 0 p
      | MapK es \<Rightarrow> for_entries rec es (DEFAULT_MAP c) p
      | SetK xs \<Rightarrow> for_of rec xs (DEFAULT_SET c) p
      | Buffer es \<Rightarrow> Inr (length es, p)
      | Date \<Rightarrow> Inr (DATE, p)
      | RegExp src fl \<Rightarrow>
          (case toString h v of
             Inl e \<Rightarrow> Inl e
           | Inr s \<Rightarrow> Inr (length s * STRING_CHAR, p))
      | _ \<Rightarrow> for_in rec (own_props ob) (DEFAULT_OBJECT c) p)"

definition DefaultSizeStrategy_sizeOf ::
  "overheads \<Rightarrow> heap \<Rightarrow> sizer \<Rightarrow> val \<Rightarrow> profiler \<Rightarrow> (nat \<times> profiler) result" where
  "DefaultSizeStrategy_sizeOf c h rec v p =
     (case v of
        Null \<Rightarrow> Inr (NULL, p)
      | Undefined \<Rightarrow> Inr (UNDEFINED, p)
      | Str s \<Rightarrow> Inr (length s * STRING_CHAR, p)
      | Num i \<Rightarrow> Inr (NUMBER, p)
      | Bool b \<Rightarrow> Inr (BOOLEAN, p)
      | BigInt i \<Rightarrow> Inr (BIGINT, p)
      | Sym d \<Rightarrow>
          Inr ((case d of None \<Rightarrow> 0
                | Some s \<Rightarrow> if s \<noteq> [] then length s * STRING_CHAR else 0), p)
      | Ref a \<Rightarrow>
          if typeof h v = ''function'' then
            (case toString h v of
               Inl e \<Rightarrow> Inl e
             | Inr s \<Rightarrow> Inr (DEFAULT_FUNCTION c + length s * STRING_CHAR, p))
          else if isVisited h p v then Inr (REFERENCE, p)
          else DefaultSizeStrategy_object c h rec v (h a) (markVisited h p v))"

text \<open>
  \<open>strategy.sizeOf(value, this)\<close>.  The profiler calls it only after \<open>supports\<close> has held,
  so a built-in strategy other than the catch-all never gets a value that is not of its
  shape; the model lets such a call throw.
\<close>

fun strategy_sizeOf ::
  "overheads \<Rightarrow> heap \<Rightarrow> sizer \<Rightarrow> strategy \<Rightarrow> val \<Rightarrow> profiler \<Rightarrow> (nat \<times> profiler) result" where
  "strategy_sizeOf c h rec DefaultSizeStrategy v p = DefaultSizeStrategy_sizeOf c h rec v p"
| "strategy_sizeOf c h rec URLSizeStrategy v p =
     (case toString h v of
        Inl e \<Rightarrow> Inl e
      | Inr s \<Rightarrow> Inr (DEFAULT_OBJECT c + length s * STRING_CHAR, p))"
| "strategy_sizeOf c h rec TypedArraySizeStrategy v p =
     (case kind_of h v of
        Some (TypedArray ct es) \<Rightarrow> Inr (length es * bytes_per_element ct, p)
      | Some (Buffer es) \<Rightarrow> Inr (length es, p)
      | _ \<Rightarrow> Inl TypeError)"
| "strategy_sizeOf c h rec ArrayBufferStrategy v p =
     (case kind_of h v of Some (ArrayBuffer n) \<Rightarrow> Inr (n, p) | _ \<Rightarrow> Inl TypeError)"
| "strategy_sizeOf c h rec DataViewStrategy v p =
     (case kind_of h v of Some (DataView n) \<Rightarrow> Inr (n, p) | _ \<Rightarrow> Inl TypeError)"
| "strategy_sizeOf c h rec FunctionSizeStrategy v p =
     (case v of
        Ref a \<Rightarrow>
          (case kind (h a) of
             Func proto \<Rightarrow> FunctionSizeStrategy_sizeOf c h rec v proto (h a) p
           | _ \<Rightarrow> Inl TypeError)
      | _ \<Rightarrow> Inl TypeError)"
| "strategy_sizeOf c h rec WeakRefStrategy v p = Inr (REFERENCE + DEFAULT_WEAKREF c, p)"
| "strategy_sizeOf c h rec RegExpStrategy v p =
     (case v of
        Ref a \<Rightarrow>
          (case kind (h a) of
             RegExp src fl \<Rightarrow> RegExpStrategy_sizeOf c rec src fl (h a) p
           | _ \<Rightarrow> Inl TypeError)
      | _ \<Rightarrow> Inl TypeError)"
| "strategy_sizeOf c h rec ArrayStrategy v p =
     (case v of
        Ref a \<Rightarrow>
          (case kind (h a) of
             Array slots \<Rightarrow> ArrayStrategy_sizeOf c rec slots (h a) p
           | _ \<Rightarrow> Inl TypeError)
      | _ \<Rightarrow> Inl TypeError)"
| "strategy_sizeOf c h rec (Custom accepts cost hook) v p = Inr (cost h v, p)"

section \<open>computeSize and sizeOf\<close>

text \<open>
  \<open>computeSize\<close>, with the depth of the call stack that is left as first argument: every
  nested \<open>profiler.computeSize\<close> has one frame less, and a call with no frame left throws
  the runtime's \<open>RangeError\<close>.
\<close>

primrec computeSize ::
  "nat \<Rightarrow> overheads \<Rightarrow> heap \<Rightarrow> val \<Rightarrow> profiler \<Rightarrow> (nat \<times> profiler) result" where
  "computeSize 0 c h v p = Inl RangeError"
| "computeSize (Suc n) c h v p =
     (case find_strategy h v (strategies p) of
        Inl e \<Rightarrow> Inl e
      | Inr None \<Rightarrow> Inr (0, p)
      | Inr (Some s) \<Rightarrow> strategy_sizeOf c h (computeSize n c h) s v p)"

text \<open>\<open>sizeOf\<close>: \<open>this.visited = new WeakSet(); return this.computeSize(value)\<close>.\<close>

definition sizeOf ::
  "nat \<Rightarrow> overheads \<Rightarrow> heap \<Rightarrow> profiler \<Rightarrow> val \<Rightarrow> (nat \<times> profiler) result" where
  "sizeOf n c h p v = computeSize n c h v (p\<lparr>visited := {}\<rparr>)"

section \<open>The detailed report\<close>

text \<open>\<open>children[key] = child\<close>: a key that is already there keeps its place and gets the new report.\<close>

fun assign :: "(string \<times> 'a) list \<Rightarrow> string \<Rightarrow> 'a \<Rightarrow> (string \<times> 'a) list" where
  "assign [] key child = [(key, child)]"
| "assign ((k, r) # kvs) key child =
     (if k = key then (key, child) # kvs else (k, r) # assign kvs key child)"

text \<open>
  A call of \<open>this._computeDetailed\<close> takes the profiler as it is and returns the report
  with the profiler as the call leaves it, or throws.  A loop returns the \<open>children\<close> and
  the \<open>size\<close> it has built.
\<close>

type_synonym detailer = "val \<Rightarrow> profiler \<Rightarrow> (report \<times> profiler) result"

type_synonym walk = "(((string \<times> report) list \<times> nat) \<times> profiler) result"

text \<open>
  \<open>const child = this._computeDetailed(value[key]);
  size += key.length * eMemorySize.STRING_CHAR + child.size; children[key] = child\<close>
  for each pair of the property walk.
\<close>

fun detail_props ::
  "detailer \<Rightarrow> (string \<times> val) list \<Rightarrow> (string \<times> report) list \<Rightarrow> nat \<Rightarrow> profiler \<Rightarrow> walk" where
  "detail_props rec [] ch sz p = Inr ((ch, sz), p)"
| "detail_props rec ((key, v) # kvs) ch sz p =
     (case rec v p of
        Inl e \<Rightarrow> Inl e
      | Inr (child, p') \<Rightarrow>
          detail_props rec kvs (assign ch key child)
            (sz + (length key * STRING_CHAR + rsize child)) p')"

text \<open>
  \<open>const detail = this._computeDetailed(item); children[index] = detail; size += detail.size\<close>
  for each item with its position (array and Set).
\<close>

fun detail_items ::
  "detailer \<Rightarrow> (string \<times> val) list \<Rightarrow> (string \<times> report) list \<Rightarrow> nat \<Rightarrow> profiler \<Rightarrow> walk" where
  "detail_items rec [] ch sz p = Inr ((ch, sz), p)"
| "detail_items rec ((index, item) # rest) ch sz p =
     (case rec item p of
        Inl e \<Rightarrow> Inl e
      | Inr (detail, p') \<Rightarrow>
          detail_items rec rest (assign ch index detail) (sz + rsize detail) p')"

text \<open>The Map loop, with the labels \<open>`key:${String(k)}`\<close> and \<open>`val:${String(k)}`\<close>.\<close>

fun detail_entries ::
  "heap \<Rightarrow> detailer \<Rightarrow> (val \<times> val) list \<Rightarrow> (string \<times> report) list \<Rightarrow> nat \<Rightarrow> profiler \<Rightarrow>
   walk" where
  "detail_entries h rec [] ch sz p = Inr ((ch, sz), p)"
| "detail_entries h rec ((k, v) # es) ch sz p =
     (case rec k p of
        Inl e \<Rightarrow> Inl e
      | Inr (keyDetail, p') \<Rightarrow>
          (case rec v p' of
             Inl e \<Rightarrow> Inl e
           | Inr (valDetail, p'') \<Rightarrow>
               (case String_of h k of
                  Inl e \<Rightarrow> Inl e
                | Inr s \<Rightarrow>
                    detail_entries h rec es
                      (assign (assign ch (''key:'' @ s) keyDetail) (''val:'' @ s) valDetail)
                      (sz + (rsize keyDetail + rsize valDetail)) p'')))"

text \<open>The branch of \<open>_computeDetailed\<close> for \<open>typeof value === "function"\<close>.\<close>

definition detailed_function ::
  "heap \<Rightarrow> detailer \<Rightarrow> val \<Rightarrow> val \<Rightarrow> obj \<Rightarrow> profiler \<Rightarrow> (report \<times> profiler) result" where
  "detailed_function h rec v proto ob p =
     (if isVisited h p v then Inr (Report ''function'' REFERENCE None, p)
      else
        (case toString h v of
           Inl e \<Rightarrow> Inl e
         | Inr s \<Rightarrow>
             (case detail_props rec (own_props ob) [] (length s * STRING_CHAR)
                     (markVisited h p v) of
                Inl e \<Rightarrow> Inl e
              | Inr ((ch, sz), p') \<Rightarrow>
                  if truthy proto \<and> typeof h proto = ''object'' then
                    (case rec proto p' of
                       Inl e \<Rightarrow> Inl e
                     | Inr (pr, p'') \<Rightarrow>
                         Inr (Report ''function'' (sz + rsize pr)
                                (Some (assign ch ''prototype'' pr)), p''))
                  else Inr (Report ''function'' sz (Some ch), p'))))"

text \<open>The part of \<open>_computeDetailed\<close> after the second visitation check.\<close>

definition detailed_object ::
  "heap \<Rightarrow> detailer \<Rightarrow> val \<Rightarrow> obj \<Rightarrow> profiler \<Rightarrow> (report \<times> profiler) result" where
  "detailed_object h rec v ob p =
     (case kind ob of
        Array slots \<Rightarrow>
          (case detail_items rec (index_props 0 slots) [] 0 p of
             Inl e \<Rightarrow> Inl e
           | Inr ((ch, sz), p') \<Rightarrow> Inr (Report ''array'' sz (Some ch), p'))
      | MapK es \<Rightarrow>
          (case detail_entries h rec es [] 0 p of
             Inl e \<Rightarrow> Inl e
           | Inr ((ch, sz), p') \<Rightarrow> Inr (Report ''map'' sz (Some ch), p'))
      | SetK xs \<Rightarrow>
          (case detail_items rec (index_props 0 (map Some xs)) [] 0 p of
             Inl e \<Rightarrow> Inl e
           | Inr ((ch, sz), p') \<Rightarrow> Inr (Report ''set'' sz (Some ch), p'))
      | Buffer es \<Rightarrow> Inr (Report ''buffer'' (length es) None, p)
      | Date \<Rightarrow> Inr (Report ''date'' DATE None, p)
      | RegExp src fl \<Rightarrow>
          (case toString h v of
             Inl e \<Rightarrow> Inl e
           | Inr s \<Rightarrow> Inr (Report ''regexp'' (length s * STRING_CHAR) None, p))
      | _ \<Rightarrow>
          (case detail_props rec (own_props ob) [] 0 p of
             Inl e \<Rightarrow> Inl e
           | Inr ((ch, sz), p') \<Rightarrow> Inr (Report ''object'' sz (Some ch), p')))"

text \<open>One call of \<open>_computeDetailed\<close>, its nested calls going to \<open>rec\<close>.\<close>

definition detailed_step ::
  "heap \<Rightarrow> detailer \<Rightarrow> val \<Rightarrow> profiler \<Rightarrow> (report \<times> profiler) result" where
  "detailed_step h rec v p =
     (case v of
        Null \<Rightarrow> Inr (Report ''null'' UNDEFINED None, p)
      | Undefined \<Rightarrow> Inr (Report ''undefined'' UNDEFINED None, p)
      | Str s \<Rightarrow> Inr (Report ''string'' (length s * STRING_CHAR) None, p)
      | Num i \<Rightarrow> Inr (Report ''number'' NUMBER None, p)
      | Bool b \<Rightarrow> Inr (Report ''boolean'' BOOLEAN None, p)
      | BigInt i \<Rightarrow> Inr (Report ''bigint'' BIGINT None, p)
      | Sym d \<Rightarrow>
          Inr (Report ''symbol''
                 (case d of None \<Rightarrow> 0
                  | Some s \<Rightarrow> if s \<noteq> [] then length s * STRING_CHAR else 0) None, p)
      | Ref a \<Rightarrow>
          (case kind (h a) of
             Func proto \<Rightarrow> detailed_function h rec v proto (h a) p
           | _ \<Rightarrow>
               if isVisited h p v then Inr (Report (tag (h a)) REFERENCE None, p)
               else detailed_object h rec v (h a) (markVisited h p v)))"

text \<open>
  \<open>_computeDetailed\<close>, a member of the profiler, with the depth of the call stack that is
  left as first argument.
\<close>

primrec computeDetailed ::
  "nat \<Rightarrow> heap \<Rightarrow> val \<Rightarrow> profiler \<Rightarrow> (report \<times> profiler) result" where
  "computeDetailed 0 h v p = Inl RangeError"
| "computeDetailed (Suc n) h v p = detailed_step h (computeDetailed n h) v p"

text \<open>\<open>computeDetailedSize\<close>: \<open>this.visited = new WeakSet(); return this._computeDetailed(value)\<close>.\<close>

definition computeDetailedSize ::
  "nat \<Rightarrow> heap \<Rightarrow> profiler \<Rightarrow> val \<Rightarrow> (report \<times> profiler) result" where
  "computeDetailedSize n h p v = computeDetailed n h v (p\<lparr>visited := {}\<rparr>)"

text \<open>
  What a caller sees of a call besides the strategy list of the profiler: the error, or
  the value returned with the visitation set that is left.
\<close>

definition outcome :: "('a \<times> profiler) result \<Rightarrow> ('a \<times> addr set) result" where
  "outcome r = map_sum id (map_prod id visited) r"

section \<open>The array rule as a sum\<close>

text \<open>
  The costs that \<open>computeSize\<close> returns for a list of values sized one after the other,
  each by the profiler as the one before leaves it.
\<close>

fun costs :: "sizer \<Rightarrow> val list \<Rightarrow> profiler \<Rightarrow> (nat list \<times> profiler) result" where
  "costs rec [] p = Inr ([], p)"
| "costs rec (v # vs) p =
     (case rec v p of
        Inl e \<Rightarrow> Inl e
      | Inr (n, p') \<Rightarrow>
          (case costs rec vs p' of
             Inl e \<Rightarrow> Inl e
           | Inr (ns, p'') \<Rightarrow> Inr (n # ns, p'')))"

text \<open>
  The cost of an array written as a formula: the base array overhead, plus the costs of
  the elements, plus, for the index keys of the present slots and for every other own
  enumerable property that is not named \<open>length\<close>, the key length times the string unit
  and the cost of the value.
\<close>

definition array_cost_amended ::
  "overheads \<Rightarrow> sizer \<Rightarrow> val option list \<Rightarrow> (string \<times> val) list \<Rightarrow> profiler \<Rightarrow>
   (nat \<times> profiler) result" where
  "array_cost_amended c rec slots ps p =
     (let walked = index_props 0 slots @ filter (\<lambda>(key, v). key \<noteq> ''length'') ps
      in case costs rec (elements slots @ map snd walked) p of
           Inl e \<Rightarrow> Inl e
         | Inr (ns, p') \<Rightarrow>
             Inr (DEFAULT_ARRAY c + sum_list ns +
                  sum_list (map (\<lambda>(key, v). length key * STRING_CHAR) walked), p'))"

section \<open>A sample object graph\<close>

text \<open>
  \<^item> 0: \<open>a = {}; a.self = a\<close>
  \<^item> 2: \<open>new Map([[1, "a"], ["1", "bb"]])\<close>
  \<^item> 3: \<open>a = []; a.push(a)\<close>
  \<^item> 4: \<open>f = () => 1; f.self = f\<close>
  \<^item> 5: \<open>[]\<close>, 6: \<open>{}\<close>, 7: \<open>new Map()\<close>, 8: \<open>new Set()\<close>
  \<^item> 9: \<open>[1]\<close>
  \<^item> 10: \<open>{toString: 5}\<close>
\<close>

definition empty_object :: obj where
  "empty_object = \<lparr>kind = Plain, props = [], text_of = ''[object Object]'', tag = ''object''\<rparr>"

definition sample_heap :: heap where
  "sample_heap =
     (\<lambda>a. empty_object)
     (0 := empty_object\<lparr>props := [(''self'', Ref 0)]\<rparr>,
      2 := \<lparr>kind = MapK [(Num 1, Str ''a''), (Str ''1'', Str ''bb'')], props = [],
             text_of = ''[object Map]'', tag = ''map''\<rparr>,
      3 := \<lparr>kind = Array [Some (Ref 3)], props = [], text_of = [], tag = ''array''\<rparr>,
      4 := \<lparr>kind = Func Undefined, props = [(''self'', Ref 4)], text_of = ''() => 1'',
             tag = ''function''\<rparr>,
      5 := \<lparr>kind = Array [], props = [], text_of = [], tag = ''array''\<rparr>,
      7 := \<lparr>kind = MapK [], props = [], text_of = ''[object Map]'', tag = ''map''\<rparr>,
      8 := \<lparr>kind = SetK [], props = [], text_of = ''[object Set]'', tag = ''set''\<rparr>,
      9 := \<lparr>kind = Array [Some (Num 1)], props = [], text_of = ''1'', tag = ''array''\<rparr>,
      10 := empty_object\<lparr>props := [(''toString'', Num 5)]\<rparr>)"

section \<open>Basic facts\<close>

lemmas eMemorySize_defs =
  BOOLEAN_def NUMBER_def BIGINT_def STRING_CHAR_def DATE_def REFERENCE_def UNDEFINED_def NULL_def

lemmas dispatch_defs =
  default_strategies_def Profiler_def kind_of_def typeof_def url_like_def
  URLSizeStrategy_supports_def toString_def toString_callee_def

lemmas tracker_defs = isVisited_def markVisited_def has_def add_def

lemma sample_heap_simps:
  "sample_heap 0 = empty_object\<lparr>props := [(''self'', Ref 0)]\<rparr>"
  "sample_heap 2 = \<lparr>kind = MapK [(Num 1, Str ''a''), (Str ''1'', Str ''bb'')], props = [],
             text_of = ''[object Map]'', tag = ''map''\<rparr>"
  "sample_heap 3 = \<lparr>kind = Array [Some (Ref 3)], props = [], text_of = [], tag = ''array''\<rparr>"
  "sample_heap 4 = \<lparr>kind = Func Undefined, props = [(''self'', Ref 4)], text_of = ''() => 1'',
             tag = ''function''\<rparr>"
  "sample_heap 5 = \<lparr>kind = Array [], props = [], text_of = [], tag = ''array''\<rparr>"
  "sample_heap 6 = empty_object"
  "sample_heap 7 = \<lparr>kind = MapK [], props = [], text_of = ''[object Map]'', tag = ''map''\<rparr>"
  "sample_heap 8 = \<lparr>kind = SetK [], props = [], text_of = ''[object Set]'', tag = ''set''\<rparr>"
  "sample_heap 9 = \<lparr>kind = Array [Some (Num 1)], props = [], text_of = ''1'', tag = ''array''\<rparr>"
  "sample_heap 10 = empty_object\<lparr>props := [(''toString'', Num 5)]\<rparr>"
  by (simp_all add: sample_heap_def)

lemma fresh_Profiler: "(Profiler opt)\<lparr>visited := {}\<rparr> = Profiler opt"
  by (simp add: Profiler_def)

lemma visited_Profiler: "visited (Profiler opt) = {}"
  by (simp add: Profiler_def)

lemma strategies_Profiler_None: "strategies (Profiler None) = default_strategies"
  by (simp add: Profiler_def)

lemma decimal_0: "decimal 0 = ''0''"
  by (simp add: decimal.simps digit_def)

lemma digit_not_h: "d < 10 \<Longrightarrow> digit d \<noteq> CHR ''h''"
proof -
  assume "d < 10"
  then have "d \<in> {0, 1, 2, 3, 4, 5, 6, 7, 8, 9}" by auto
  then show ?thesis by (auto simp: digit_def)
qed

lemma decimal_not_length: "decimal n \<noteq> ''length''"
proof (cases "n < 10")
  case True
  then show ?thesis by (simp add: decimal.simps)
next
  case False
  have "last (decimal n) = digit (n mod 10)"
    using False by (subst decimal.simps) simp
  moreover have "digit (n mod 10) \<noteq> CHR ''h''"
    by (rule digit_not_h) simp
  ultimately show ?thesis by auto
qed

text \<open>The test \<open>key !== "length"\<close> never removes an index key.\<close>

lemma filter_index_props:
  "filter (\<lambda>(key, v). key \<noteq> ''length'') (index_props i slots) = index_props i slots"
  by (induction i slots rule: index_props.induct) (simp_all add: decimal_not_length)

section \<open>Formatting\<close>

text \<open>
  C9: \<open>formatSize(1024, kilobyte)\<close> is \<open>"1.00 KB"\<close>, \<open>formatSize(1024, byte)\<close> is \<open>"1024 B"\<close>,
  and a unit outside byte, kilobyte, megabyte and gigabyte formats as bytes.
\<close>

theorem formatSize_units:
  "formatSize 1024 ''KB'' = ''1.00 KB'' \<and> formatSize 1024 ''B'' = ''1024 B'' \<and>
   (unit \<notin> {''B'', ''KB'', ''MB'', ''GB''} \<longrightarrow> formatSize bytes unit = formatSize bytes ''B'')"
  by (simp add: formatSize_def toFixed2_def decimal.simps digit_def)

theorem formatSize_units_witness:
  "''TB'' \<notin> {''B'', ''KB'', ''MB'', ''GB''} \<and> formatSize 7 ''TB'' = ''7 B''"
  using formatSize_units [of "''TB''" 7]
  by (simp add: formatSize_def decimal.simps digit_def)

section \<open>Dispatch\<close>

lemma find_strategy_no_match:
  "\<forall>s \<in> set ss. supports h s v = Inr False \<Longrightarrow> find_strategy h v ss = Inr None"
  by (induction ss) simp_all

text \<open>
  When the predicate of every registered strategy returns false for a value,
  \<open>computeSize\<close> returns 0 for it and leaves the profiler as it is.
\<close>

lemma computeSize_no_match:
  assumes "\<forall>s \<in> set (strategies p). supports h s v = Inr False"
  shows "computeSize (Suc n) c h v p = Inr (0, p)"
  using find_strategy_no_match [OF assms] by simp

text \<open>
  C8: when no registered strategy's \<open>supports\<close> predicate returns true for a value,
  \<open>computeSize\<close> returns 0 for it rather than raising an error, and no error is ever raised
  by \<open>computeSize\<close>.  The code does otherwise: for the object \<open>{toString: 5}\<close>
  \<open>URLSizeStrategy.supports\<close> calls \<open>toString\<close> before it tests that it is a function, and
  the \<open>TypeError\<close> passes through \<open>find\<close> and out of \<open>computeSize\<close>, both when that strategy
  is the only one registered and with the default list, whatever the stack depth.
\<close>

theorem computeSize_raises_TypeError:
  "supports sample_heap URLSizeStrategy (Ref 10) = Inl TypeError \<and>
   computeSize (Suc n) c sample_heap (Ref 10) (Profiler (Some [URLSizeStrategy])) = Inl TypeError \<and>
   computeSize (Suc n) c sample_heap (Ref 10) (Profiler None) = Inl TypeError"
  by (simp add: dispatch_defs sample_heap_simps empty_object_def)

section \<open>Leaves under the default strategies\<close>

lemma leaf_number:
  "strategies p = default_strategies \<Longrightarrow> computeSize (Suc n) c h (Num 1) p = Inr (8, p)"
  by (simp add: dispatch_defs decimal_int_def decimal.simps digit_def
      DefaultSizeStrategy_sizeOf_def eMemorySize_defs)

text \<open>A string that does not begin with \<open>http:\<close> or \<open>https:\<close> costs its length times the unit.\<close>

lemma sizeOf_plain_string:
  "\<not> url_like s \<Longrightarrow>
   map_sum id fst (sizeOf (Suc n) c h (Profiler None) (Str s)) = Inr (length s * STRING_CHAR)"
  by (simp add: sizeOf_def default_strategies_def Profiler_def kind_of_def typeof_def
      URLSizeStrategy_supports_def toString_def toString_callee_def
      DefaultSizeStrategy_sizeOf_def)

text \<open>
  C5: every primitive string costs its character count times the string unit, also one that
  begins with \<open>http:\<close> or \<open>https:\<close>.  The code does otherwise: \<open>URLSizeStrategy.supports\<close>
  accepts the string \<open>"http://a"\<close> before the catch-all sees it, and the generic-object base
  cost is added to the 16 bytes of its eight characters.
\<close>

theorem sizeOf_http_string:
  "map_sum id fst (sizeOf (Suc n) c h (Profiler None) (Str ''http://a'')) =
   Inr (DEFAULT_OBJECT c + length ''http://a'' * STRING_CHAR)"
  by (simp add: sizeOf_def dispatch_defs)

text \<open>With a base cost that is not zero this is not the cost of the eight characters.\<close>

lemma http_string_above_character_cost:
  "0 < DEFAULT_OBJECT c \<Longrightarrow>
   map_sum id fst (sizeOf (Suc n) c h (Profiler None) (Str ''http://a'')) \<noteq>
   Inr (length ''http://a'' * STRING_CHAR)"
  by (simp add: sizeOf_def dispatch_defs)

section \<open>Containers\<close>





section \<open>Arrays\<close>

lemma costs_append:
  "costs rec (xs @ ys) p =
     (case costs rec xs p of
        Inl e \<Rightarrow> Inl e
      | Inr (ns, p') \<Rightarrow>
          (case costs rec ys p' of
             Inl e \<Rightarrow> Inl e
           | Inr (ms, p'') \<Rightarrow> Inr (ns @ ms, p'')))"
  by (induction xs arbitrary: p) (auto split: sum.splits)

lemma for_of_costs:
  "for_of rec xs sz p =
     (case costs rec xs p of Inl e \<Rightarrow> Inl e | Inr (ns, p') \<Rightarrow> Inr (sz + sum_list ns, p'))"
  by (induction xs arbitrary: sz p) (auto split: sum.splits)

lemma for_in_costs:
  "for_in rec kvs sz p =
     (case costs rec (map snd kvs) p of
        Inl e \<Rightarrow> Inl e
      | Inr (ns, p') \<Rightarrow>
          Inr (sz + sum_list ns + sum_list (map (\<lambda>(key, v). length key * STRING_CHAR) kvs), p'))"
  by (induction rec kvs sz p rule: for_in.induct) (auto split: sum.splits)

lemma ArrayStrategy_sizeOf_amended:
  assumes "kind ob = Array slots"
  shows "ArrayStrategy_sizeOf c rec slots ob p = array_cost_amended c rec slots (props ob) p"
  using assms
  by (auto simp: ArrayStrategy_sizeOf_def array_cost_amended_def own_props_def
      filter_index_props for_of_costs for_in_costs costs_append Let_def split: sum.splits)

lemma find_array:
  "kind (h a) = Array slots \<Longrightarrow>
   find_strategy h (Ref a) default_strategies = Inr (Some ArrayStrategy)"
  by (simp add: default_strategies_def kind_of_def)

lemma sample_array_size:
  assumes "strategies p = default_strategies"
  shows "computeSize (Suc (Suc n)) c sample_heap (Ref 9) p = Inr (DEFAULT_ARRAY c + 18, p)"
proof -
  have "find_strategy sample_heap (Ref 9) (strategies p) = Inr (Some ArrayStrategy)"
    unfolding assms by (rule find_array) (simp add: sample_heap_simps)
  then show ?thesis
    by (subst computeSize.simps)
      (simp add: sample_heap_simps ArrayStrategy_sizeOf_def elements_def own_props_def
        leaf_number [OF assms] decimal_0 eMemorySize_defs del: computeSize.simps)
qed

text \<open>
  C4, as amended: for every array, \<open>sizeOf\<close> returns the base array overhead, plus the sum
  of the costs of the elements (a hole read as undefined), plus, for every own enumerable
  property other than \<open>length\<close>, the index keys of the present elements included, the key
  length times the string unit and the cost of the property value.  So the property walk
  charges each present element a second time, with the length of its index key.
\<close>

theorem sizeOf_array_charges_index_keys:
  assumes "kind (h a) = Array slots"
  shows "map_sum id fst (sizeOf (Suc n) c h (Profiler None) (Ref a)) =
         map_sum id fst
           (array_cost_amended c (computeSize n c h) slots (props (h a)) (Profiler None))"
proof -
  have "find_strategy h (Ref a) (strategies (Profiler None)) = Inr (Some ArrayStrategy)"
    unfolding strategies_Profiler_None using assms by (rule find_array)
  then have "computeSize (Suc n) c h (Ref a) (Profiler None) =
      array_cost_amended c (computeSize n c h) slots (props (h a)) (Profiler None)"
    using assms by (simp add: ArrayStrategy_sizeOf_amended)
  then show ?thesis
    by (simp add: sizeOf_def fresh_Profiler del: computeSize.simps)
qed

theorem sizeOf_array_charges_index_keys_witness:
  "kind (sample_heap 9) = Array [Some (Num 1)] \<and>
   map_sum id fst (sizeOf (Suc (Suc 0)) sample_overheads sample_heap (Profiler None) (Ref 9)) =
     Inr (DEFAULT_ARRAY sample_overheads + NUMBER + (length ''0'' * STRING_CHAR + NUMBER))"
  using sizeOf_array_charges_index_keys [of sample_heap 9 "[Some (Num 1)]" "Suc 0" sample_overheads]
  by (simp add: sample_heap_simps array_cost_amended_def elements_def
      leaf_number [OF strategies_Profiler_None] decimal_0
      eMemorySize_defs sample_overheads_def del: computeSize.simps)

text \<open>
  C4, as stated, fails on \<open>[1]\<close>: the claim gives the base array overhead plus the cost of
  the number, the code adds the index key \<open>"0"\<close> and the number once more.
\<close>

theorem sizeOf_array_counterexample:
  "map_sum id fst (sizeOf (Suc (Suc 0)) sample_overheads sample_heap (Profiler None) (Ref 9)) \<noteq>
   Inr (DEFAULT_ARRAY sample_overheads + NUMBER)"
  by (simp add: sizeOf_def fresh_Profiler sample_array_size [OF strategies_Profiler_None]
      eMemorySize_defs del: computeSize.simps)

section \<open>Cycles\<close>

lemma cyclic_array_RangeError:
  "strategies p = default_strategies \<Longrightarrow>
   computeSize n c sample_heap (Ref 3) p = Inl RangeError"
proof (induction n arbitrary: p)
  case 0
  show ?case by simp
next
  case (Suc n)
  have "find_strategy sample_heap (Ref 3) (strategies p) = Inr (Some ArrayStrategy)"
    unfolding Suc.prems by (rule find_array) (simp add: sample_heap_simps)
  then show ?case
    using Suc by (simp add: sample_heap_simps ArrayStrategy_sizeOf_def elements_def)
qed

lemma cyclic_function_RangeError:
  "strategies p = default_strategies \<Longrightarrow>
   computeSize n c sample_heap (Ref 4) p = Inl RangeError"
proof (induction n arbitrary: p)
  case 0
  show ?case by simp
next
  case (Suc n)
  have "find_strategy sample_heap (Ref 4) (strategies p) = Inr (Some FunctionSizeStrategy)"
    unfolding Suc.prems
    by (simp add: default_strategies_def kind_of_def typeof_def url_like_def
        URLSizeStrategy_supports_def toString_def toString_callee_def sample_heap_simps)
  then show ?case
    using Suc
    by (simp add: sample_heap_simps FunctionSizeStrategy_sizeOf_def own_props_def
        toString_def toString_callee_def)
qed

lemma cyclic_function_detailed_RangeError:
  "computeDetailed n sample_heap (Ref 4) p = Inl RangeError"
proof (induction n arbitrary: p)
  case 0
  show ?case by simp
next
  case (Suc n)
  then show ?case
    by (simp add: sample_heap_simps detailed_step_def detailed_function_def isVisited_def
        markVisited_def typeof_def own_props_def toString_def toString_callee_def)
qed

text \<open>
  C2: \<open>sizeOf\<close> and \<open>computeDetailedSize\<close> return for every input, a cycle through an
  array or through a function's own properties being cut by the visitation tracker.  The
  code does otherwise: with any stack depth \<open>n\<close>, \<open>sizeOf\<close> of \<open>a = []; a.push(a)\<close> and of
  \<open>f = () => 1; f.self = f\<close>, and \<open>computeDetailedSize\<close> of that \<open>f\<close>, use up the stack.
\<close>

theorem cyclic_array_and_function_never_return:
  "sizeOf n c sample_heap (Profiler None) (Ref 3) = Inl RangeError \<and>
   sizeOf n c sample_heap (Profiler None) (Ref 4) = Inl RangeError \<and>
   computeDetailedSize n sample_heap p (Ref 4) = Inl RangeError"
  by (simp add: sizeOf_def computeDetailedSize_def fresh_Profiler strategies_Profiler_None
      cyclic_array_RangeError cyclic_function_RangeError cyclic_function_detailed_RangeError)

section \<open>The detailed report against the scalar size\<close>

text \<open>
  C1: the size of the report of \<open>computeDetailedSize(value)\<close> is what \<open>sizeOf(value)\<close>
  returns right after it.  The code does otherwise: for \<open>null\<close> the report carries the
  constant for undefined, 1, and \<open>sizeOf\<close> returns the null constant, 8; for \<open>[1]\<close> the
  report carries 8, and \<open>sizeOf\<close> returns the base array overhead plus 18.
\<close>

theorem detailed_size_differs_from_sizeOf:
  "(case computeDetailedSize (Suc n) h (Profiler None) Null of
      Inl e \<Rightarrow> False
    | Inr (r, p) \<Rightarrow>
        r = Report ''null'' 1 None \<and> map_sum id fst (sizeOf (Suc n) c h p Null) = Inr 8) \<and>
   (case computeDetailedSize (Suc (Suc n)) sample_heap (Profiler None) (Ref 9) of
      Inl e \<Rightarrow> False
    | Inr (r, p) \<Rightarrow>
        r = Report ''array'' 8 (Some [(''0'', Report ''number'' 8 None)]) \<and>
        map_sum id fst (sizeOf (Suc (Suc n)) c sample_heap p (Ref 9)) =
          Inr (DEFAULT_ARRAY c + 18))"
proof -
  have null: "computeDetailedSize (Suc n) h (Profiler None) Null =
      Inr (Report ''null'' 1 None, Profiler None)"
    by (simp add: computeDetailedSize_def fresh_Profiler detailed_step_def eMemorySize_defs)
  have null_size: "map_sum id fst (sizeOf (Suc n) c h (Profiler None) Null) = Inr 8"
    by (simp add: sizeOf_def dispatch_defs DefaultSizeStrategy_sizeOf_def eMemorySize_defs)
  have array: "computeDetailedSize (Suc (Suc n)) sample_heap (Profiler None) (Ref 9) =
      Inr (Report ''array'' 8 (Some [(''0'', Report ''number'' 8 None)]),
           (Profiler None)\<lparr>visited := {9}\<rparr>)"
    by (simp add: computeDetailedSize_def fresh_Profiler visited_Profiler detailed_step_def
        detailed_object_def sample_heap_simps tracker_defs typeof_def decimal_0 eMemorySize_defs)
  have "strategies ((Profiler None)\<lparr>visited := {}\<rparr>) = default_strategies"
    by (simp add: Profiler_def)
  then have array_size:
    "map_sum id fst (sizeOf (Suc (Suc n)) c sample_heap ((Profiler None)\<lparr>visited := {9}\<rparr>) (Ref 9)) =
     Inr (DEFAULT_ARRAY c + 18)"
    by (simp add: sizeOf_def sample_array_size del: computeSize.simps)
  show ?thesis
    by (simp only: null array null_size array_size sum.case prod.case simp_thms)
qed

text \<open>
  C3: in every node of a report the size is the node's own overhead plus the sum of the
  sizes of the entries of its \<open>children\<close>, also for a Map node two of whose entries get the
  same label.  The code does otherwise: for \<open>new Map([[1, "a"], ["1", "bb"]])\<close> both keys
  are labelled \<open>key:1\<close> and both values \<open>val:1\<close>; the node has size 16, all of it from its
  four children, and its \<open>children\<close> keeps two reports, of sizes 2 and 4.
\<close>

theorem map_report_label_collision:
  "map_sum id fst (computeDetailedSize (Suc (Suc n)) sample_heap p (Ref 2)) =
   Inr (Report ''map'' 16
          (Some [(''key:1'', Report ''string'' 2 None), (''val:1'', Report ''string'' 4 None)]))"
  by (simp add: computeDetailedSize_def detailed_step_def detailed_object_def sample_heap_simps
      tracker_defs typeof_def eMemorySize_defs decimal_int_def decimal.simps digit_def)

section \<open>The detailed report and the strategy list\<close>

text \<open>
  Two runs of the detailed path whose profilers hold the same visitation set, whatever
  their strategy lists, end alike: with the same error, or with the same report and the
  same visitation set.
\<close>

lemma outcome_Inr: "outcome (Inr (x, p)) = Inr (x, visited p)"
  by (simp add: outcome_def)

lemma outcome_Inl: "outcome (Inl e) = Inl e"
  by (simp add: outcome_def)

lemma outcome_eqE:
  assumes "outcome r1 = outcome r2"
  obtains (err) e where "r1 = Inl e" and "r2 = Inl e"
  | (ok) x p q where "r1 = Inr (x, p)" and "r2 = Inr (x, q)" and "visited p = visited q"
  using assms by (cases r1; cases r2) (auto simp: outcome_def)

lemma fst_outcome: "map_sum id fst (outcome r) = map_sum id fst r"
  by (cases r) (auto simp: outcome_def)

lemma isVisited_agree: "visited p = visited q \<Longrightarrow> isVisited h p v = isVisited h q v"
  by (simp add: isVisited_def)

lemma markVisited_agree:
  "visited p = visited q \<Longrightarrow> visited (markVisited h p v) = visited (markVisited h q v)"
  by (simp add: markVisited_def)

lemma detail_props_agree:
  assumes rec: "\<And>v p q. visited p = visited q \<Longrightarrow> outcome (rec v p) = outcome (rec v q)"
  shows "visited p = visited q \<Longrightarrow>
         outcome (detail_props rec kvs ch sz p) = outcome (detail_props rec kvs ch sz q)"
proof (induction kvs arbitrary: ch sz p q)
  case Nil
  then show ?case by (simp add: outcome_Inr)
next
  case (Cons kv kvs)
  obtain key v where kv: "kv = (key, v)" by (cases kv)
  from rec [OF Cons.prems, of v] show ?case
  proof (cases rule: outcome_eqE)
    case (err e)
    then show ?thesis by (simp add: kv)
  next
    case (ok child p' q')
    then show ?thesis using Cons.IH [of p' q'] by (simp add: kv)
  qed
qed

lemma detail_items_agree:
  assumes rec: "\<And>v p q. visited p = visited q \<Longrightarrow> outcome (rec v p) = outcome (rec v q)"
  shows "visited p = visited q \<Longrightarrow>
         outcome (detail_items rec kvs ch sz p) = outcome (detail_items rec kvs ch sz q)"
proof (induction kvs arbitrary: ch sz p q)
  case Nil
  then show ?case by (simp add: outcome_Inr)
next
  case (Cons kv kvs)
  obtain index item where kv: "kv = (index, item)" by (cases kv)
  from rec [OF Cons.prems, of item] show ?case
  proof (cases rule: outcome_eqE)
    case (err e)
    then show ?thesis by (simp add: kv)
  next
    case (ok detail p' q')
    then show ?thesis using Cons.IH [of p' q'] by (simp add: kv)
  qed
qed

lemma detail_entries_agree:
  assumes rec: "\<And>v p q. visited p = visited q \<Longrightarrow> outcome (rec v p) = outcome (rec v q)"
  shows "visited p = visited q \<Longrightarrow>
         outcome (detail_entries h rec es ch sz p) = outcome (detail_entries h rec es ch sz q)"
proof (induction es arbitrary: ch sz p q)
  case Nil
  then show ?case by (simp add: outcome_Inr)
next
  case (Cons kv es)
  obtain k v where kv: "kv = (k, v)" by (cases kv)
  from rec [OF Cons.prems, of k] show ?case
  proof (cases rule: outcome_eqE)
    case (err e)
    then show ?thesis by (simp add: kv)
  next
    case key: (ok keyDetail p' q')
    from rec [OF key(3), of v] show ?thesis
    proof (cases rule: outcome_eqE)
      case (err e)
      then show ?thesis using key by (simp add: kv)
    next
      case (ok valDetail p'' q'')
      then show ?thesis
        using key Cons.IH [of p'' q''] by (simp add: kv split: sum.splits)
    qed
  qed
qed

lemma detailed_function_agree:
  assumes rec: "\<And>v p q. visited p = visited q \<Longrightarrow> outcome (rec v p) = outcome (rec v q)"
    and vis: "visited p = visited q"
  shows "outcome (detailed_function h rec v proto ob p) =
         outcome (detailed_function h rec v proto ob q)"
proof (cases "isVisited h p v")
  case True
  then show ?thesis
    using vis isVisited_agree [OF vis, of h v] by (simp add: detailed_function_def outcome_Inr)
next
  case False
  then have nq: "\<not> isVisited h q v" using isVisited_agree [OF vis, of h v] by simp
  show ?thesis
  proof (cases "toString h v")
    case (Inl e)
    then show ?thesis using False nq by (simp add: detailed_function_def)
  next
    case (Inr s)
    from detail_props_agree [of rec, OF rec markVisited_agree [OF vis]]
    have "outcome (detail_props rec (own_props ob) [] (length s * STRING_CHAR) (markVisited h p v)) =
          outcome (detail_props rec (own_props ob) [] (length s * STRING_CHAR) (markVisited h q v))" .
    then show ?thesis
    proof (cases rule: outcome_eqE)
      case (err e)
      then show ?thesis using False nq Inr by (simp add: detailed_function_def)
    next
      case walk: (ok x p' q')
      obtain ch sz where x: "x = (ch, sz)" by (cases x)
      show ?thesis
      proof (cases "truthy proto \<and> typeof h proto = ''object''")
        case True
        from rec [OF walk(3), of proto] show ?thesis
        proof (cases rule: outcome_eqE)
          case (err e)
          then show ?thesis
            using False nq Inr walk x True by (simp add: detailed_function_def)
        next
          case (ok pr p'' q'')
          then show ?thesis
            using False nq Inr walk x True by (simp add: detailed_function_def outcome_Inr)
        qed
      next
        case no: False
        then show ?thesis
          using False nq Inr walk x by (auto simp: detailed_function_def outcome_Inr)
      qed
    qed
  qed
qed

lemma report_of_walk_agree:
  assumes "outcome w1 = outcome w2"
  shows "outcome (case w1 of Inl e \<Rightarrow> Inl e | Inr ((ch, sz), p') \<Rightarrow> Inr (Report t sz (Some ch), p')) =
         outcome (case w2 of Inl e \<Rightarrow> Inl e | Inr ((ch, sz), p') \<Rightarrow> Inr (Report t sz (Some ch), p'))"
  using assms
proof (cases rule: outcome_eqE)
  case (err e)
  then show ?thesis by simp
next
  case (ok x p q)
  then show ?thesis by (cases x) (simp add: outcome_Inr)
qed

lemma detailed_object_agree:
  assumes rec: "\<And>v p q. visited p = visited q \<Longrightarrow> outcome (rec v p) = outcome (rec v q)"
    and vis: "visited p = visited q"
  shows "outcome (detailed_object h rec v ob p) = outcome (detailed_object h rec v ob q)"
proof (cases "kind ob")
  case (Array slots)
  then show ?thesis
    using report_of_walk_agree [OF detail_items_agree [of rec, OF rec vis]]
    by (simp add: detailed_object_def)
next
  case (MapK es)
  then show ?thesis
    using report_of_walk_agree [OF detail_entries_agree [of rec, OF rec vis]]
    by (simp add: detailed_object_def)
next
  case (SetK xs)
  then show ?thesis
    using report_of_walk_agree [OF detail_items_agree [of rec, OF rec vis]]
    by (simp add: detailed_object_def)
next
  case (RegExp src fl)
  then show ?thesis
    using vis by (simp add: detailed_object_def outcome_def split: sum.splits)
next
  case Plain
  then show ?thesis
    using report_of_walk_agree [OF detail_props_agree [of rec, OF rec vis]]
    by (simp add: detailed_object_def)
next
  case (Func proto)
  then show ?thesis
    using report_of_walk_agree [OF detail_props_agree [of rec, OF rec vis]]
    by (simp add: detailed_object_def)
next
  case Date
  then show ?thesis using vis by (simp add: detailed_object_def outcome_Inr)
next
  case (TypedArray ct es)
  then show ?thesis
    using report_of_walk_agree [OF detail_props_agree [of rec, OF rec vis]]
    by (simp add: detailed_object_def)
next
  case (Buffer es)
  then show ?thesis using vis by (simp add: detailed_object_def outcome_Inr)
next
  case (ArrayBuffer k)
  then show ?thesis
    using report_of_walk_agree [OF detail_props_agree [of rec, OF rec vis]]
    by (simp add: detailed_object_def)
next
  case (DataView k)
  then show ?thesis
    using report_of_walk_agree [OF detail_props_agree [of rec, OF rec vis]]
    by (simp add: detailed_object_def)
next
  case WeakRef
  then show ?thesis
    using report_of_walk_agree [OF detail_props_agree [of rec, OF rec vis]]
    by (simp add: detailed_object_def)
qed

lemma detailed_step_agree:
  assumes rec: "\<And>v p q. visited p = visited q \<Longrightarrow> outcome (rec v p) = outcome (rec v q)"
    and vis: "visited p = visited q"
  shows "outcome (detailed_step h rec v p) = outcome (detailed_step h rec v q)"
proof (cases v)
  case (Ref a)
  show ?thesis
  proof (cases "\<exists>proto. kind (h a) = Func proto")
    case True
    then obtain proto where "kind (h a) = Func proto" by blast
    then show ?thesis
      using detailed_function_agree [of rec, OF rec vis] by (simp add: detailed_step_def Ref)
  next
    case False
    then have step: "\<And>r. detailed_step h rec v r =
        (if isVisited h r v then Inr (Report (tag (h a)) REFERENCE None, r)
         else detailed_object h rec v (h a) (markVisited h r v))"
      by (cases "kind (h a)") (simp_all add: detailed_step_def Ref)
    show ?thesis
      using vis isVisited_agree [OF vis, of h v]
        detailed_object_agree [of rec, OF rec markVisited_agree [OF vis]]
      by (simp add: step outcome_Inr)
  qed
qed (simp_all add: detailed_step_def outcome_Inr vis)

lemma computeDetailed_agree:
  "visited p = visited q \<Longrightarrow>
   outcome (computeDetailed n h v p) = outcome (computeDetailed n h v q)"
proof (induction n arbitrary: v p q)
  case 0
  show ?case by simp
next
  case (Suc n)
  show ?case
    using detailed_step_agree [of "computeDetailed n h", OF Suc.IH Suc.prems] by simp
qed

text \<open>
  The scalar path does consult the list: a strategy prepended by \<open>addStrategy\<close> that accepts
  every value decides what \<open>sizeOf\<close> returns.
\<close>

lemma sizeOf_uses_added_strategy:
  "map_sum id fst
     (sizeOf (Suc n) c h (addStrategy (Profiler None) (Custom (\<lambda>h v. True) (\<lambda>h v. 7) hook)) Null) =
   Inr 7"
  by (simp add: sizeOf_def addStrategy_def Profiler_def)

text \<open>
  C10: the report of \<open>computeDetailedSize(value)\<close> does not depend on the strategy list of
  the profiler: any two profilers, whatever their lists and the \<open>detailedSizeOf\<close> hooks of
  the strategies in them, return the same report or throw the same error; in particular
  a profiler built with a replacement list and one with a strategy prepended by
  \<open>addStrategy\<close> return what the default profiler returns.
\<close>

theorem computeDetailedSize_ignores_strategies:
  "map_sum id fst (computeDetailedSize n h p v) = map_sum id fst (computeDetailedSize n h q v) \<and>
   map_sum id fst (computeDetailedSize n h (Profiler (Some ss)) v) =
     map_sum id fst (computeDetailedSize n h (Profiler None) v) \<and>
   map_sum id fst (computeDetailedSize n h (addStrategy (Profiler None) s) v) =
     map_sum id fst (computeDetailedSize n h (Profiler None) v) \<and>
   map_sum id fst
     (computeDetailedSize n h (addStrategy (Profiler None) (Custom accepts cost (Some hook))) v) =
     map_sum id fst (computeDetailedSize n h (Profiler None) v)"
proof -
  have "map_sum id fst (computeDetailedSize n h p' v) = map_sum id fst (computeDetailedSize n h q' v)"
    for p' q'
  proof -
    have "outcome (computeDetailed n h v (p'\<lparr>visited := {}\<rparr>)) =
          outcome (computeDetailed n h v (q'\<lparr>visited := {}\<rparr>))"
      by (rule computeDetailed_agree) simp
    then have "map_sum id fst (outcome (computeDetailed n h v (p'\<lparr>visited := {}\<rparr>))) =
               map_sum id fst (outcome (computeDetailed n h v (q'\<lparr>visited := {}\<rparr>)))"
      by simp
    then show ?thesis by (simp only: fst_outcome computeDetailedSize_def)
  qed
  then show ?thesis by blast
qed

end
